theory Spec2Isabelle
  imports Main "HOL-Library.Word" "HOL-Library.Multiset"
begin

section \<open>Identifiers, timestamps and failures\<close>

text \<open>
  A \<^verbatim>\<open>bson.ObjectId\<close> is a 12-byte value; two of them compare as their bytes do, that is
  as unsigned 96-bit numbers. \<^verbatim>\<open>datetime\<close> values are kept as an abstract point in time
  (a number of clock ticks).
\<close>

type_synonym ObjectId = "96 word"
type_synonym datetime = nat

text \<open>
  What a request can end with instead of a response body: an \<^verbatim>\<open>HTTPException\<close> raised by
  a handler (status code and detail), the \<^verbatim>\<open>bson.errors.InvalidId\<close> that
  \<^verbatim>\<open>ObjectId(s)\<close> raises on a malformed string, and the framework's rejection of a
  request body that does not fit the request schema.
\<close>

datatype failure =
    HTTPException nat string
  | InvalidId string
  | RequestValidationError string

text \<open>
  The HTTP status the framework answers with: the code of an \<^verbatim>\<open>HTTPException\<close>, 422 for
  a body that fails schema validation, 500 for any other exception that leaves a handler.
\<close>

fun status_code :: "failure \<Rightarrow> nat" where
  "status_code (HTTPException c d) = c"
| "status_code (InvalidId s) = 500"
| "status_code (RequestValidationError f) = 422"

subsection \<open>The identifier codec\<close>

definition hex_value :: "char \<Rightarrow> nat option" where
  "hex_value c =
     (let n = (of_char c :: nat) in
      if 48 \<le> n \<and> n \<le> 57 then Some (n - 48)
      else if 97 \<le> n \<and> n \<le> 102 then Some (n - 87)
      else if 65 \<le> n \<and> n \<le> 70 then Some (n - 55)
      else None)"

fun fromhex :: "nat \<Rightarrow> string \<Rightarrow> nat option" where
  "fromhex acc [] = Some acc"
| "fromhex acc (c # cs) =
     (case hex_value c of None \<Rightarrow> None | Some d \<Rightarrow> fromhex (16 * acc + d) cs)"

text \<open>
  \<^verbatim>\<open>ObjectId(s)\<close> for a string \<^verbatim>\<open>s\<close>: 24 hexadecimal digits give the identifier, anything
  else raises \<^verbatim>\<open>InvalidId\<close>. A string of 24 characters with white space among the
  digits counts as malformed here.
\<close>

definition ObjectId :: "string \<Rightarrow> failure + ObjectId" where
  "ObjectId s =
     (if length s = 24
      then (case fromhex 0 s of
              Some n \<Rightarrow> Inr (word_of_nat n)
            | None \<Rightarrow> Inl (InvalidId s))
      else Inl (InvalidId s))"

definition hex_char :: "nat \<Rightarrow> char" where
  "hex_char d = (if d < 10 then char_of (48 + d) else char_of (87 + d))"

fun hex_digits :: "nat \<Rightarrow> nat \<Rightarrow> string" where
  "hex_digits 0 n = []"
| "hex_digits (Suc k) n = hex_digits k (n div 16) @ [hex_char (n mod 16)]"

text \<open>\<^verbatim>\<open>str(oid)\<close>: the 24 lower-case hexadecimal digits of the identifier.\<close>

definition str :: "ObjectId \<Rightarrow> string" where
  "str i = hex_digits 24 (unat i)"

section \<open>Documents and the store\<close>

text \<open>Request payloads (the \<^verbatim>\<open>BaseModel\<close> classes of main.py).\<close>

record CreateUser =
  username :: string
  avatar_color :: "string option"

record StartConversation =
  user_a :: string
  user_b :: string

record SendMessage =
  conversation_id :: string
  sender_id :: string
  text' :: string

text \<open>
  The fields of a stored conversation and of a stored message. A message is the payload of
  the request with the two flags added.
\<close>

record conversation_fields =
  participant_ids :: "string list"
  last_message_preview :: "string option"
  updated_at :: "datetime option"

record message_fields = SendMessage +
  delivered :: bool
  read :: bool

text \<open>
  A stored document: the store's \<^verbatim>\<open>_id\<close> and the fields. The document a handler returns
  (\<^verbatim>\<open>to_str_id\<close>) has the string \<^verbatim>\<open>id\<close> in place of \<^verbatim>\<open>_id\<close>; a \<^verbatim>\<open>datetime\<close> field
  keeps its value, which stands for its \<^verbatim>\<open>isoformat()\<close> text.
\<close>

record 'a document =
  oid :: ObjectId
  body :: 'a

record 'a response =
  id_str :: string
  data :: 'a

definition to_str_id :: "'a document option \<Rightarrow> 'a response option" where
  "to_str_id doc =
     (case doc of
        None \<Rightarrow> None
      | Some d \<Rightarrow> Some \<lparr>id_str = str (oid d), data = body d\<rparr>)"

text \<open>\<^verbatim>\<open>to_str_id(m)\<close> for a document read from a cursor, which is never \<^verbatim>\<open>None\<close>.\<close>

definition to_str_id_doc :: "'a document \<Rightarrow> 'a response" where
  "to_str_id_doc d = \<lparr>id_str = str (oid d), data = body d\<rparr>"

text \<open>
  The three collections, each in the store's natural order, and the allocator of fresh
  identifiers.
\<close>

record store =
  chatuser :: "CreateUser document list"
  conversation :: "conversation_fields document list"
  message :: "message_fields document list"
  next_oid :: ObjectId

subsection \<open>Store operations\<close>

text \<open>\<^verbatim>\<open>collection.find_one(filter)\<close>: the first document that matches, or \<^verbatim>\<open>None\<close>.\<close>

definition find_one :: "('a \<Rightarrow> bool) \<Rightarrow> 'a list \<Rightarrow> 'a option" where
  "find_one P docs = List.find P docs"

text \<open>
  \<^verbatim>\<open>collection.update_one(filter, {"$set": ...})\<close>: the first document that matches is
  updated, the others are left as they are.
\<close>

fun update_one :: "('a \<Rightarrow> bool) \<Rightarrow> ('a \<Rightarrow> 'a) \<Rightarrow> 'a list \<Rightarrow> 'a list" where
  "update_one P f [] = []"
| "update_one P f (d # ds) = (if P d then f d # ds else d # update_one P f ds)"

text \<open>\<^verbatim>\<open>cursor.sort("_id", -1)\<close>: by identifier, greatest first.\<close>

definition sort_desc :: "'a document list \<Rightarrow> 'a document list" where
  "sort_desc docs = rev (sort_key oid docs)"

text \<open>
  \<^verbatim>\<open>cursor.limit(n)\<close>: the store reads a limit of 0 as no limit, and a negative limit as
  its absolute value.
\<close>

definition limit_cursor :: "int \<Rightarrow> 'a list \<Rightarrow> 'a list" where
  "limit_cursor n docs = (if n = 0 then docs else take (nat \<bar>n\<bar>) docs)"

text \<open>
  Modelled from the spec: \<^verbatim>\<open>database.create_document\<close> is imported by main.py and is not
  among the sources. It inserts the data as a new document with a freshly allocated
  identifier and returns that identifier as a string. One definition per collection.
\<close>

definition create_document_chatuser :: "store \<Rightarrow> CreateUser \<Rightarrow> string \<times> store" where
  "create_document_chatuser db d =
     (str (next_oid db),
      db\<lparr>chatuser := chatuser db @ [\<lparr>oid = next_oid db, body = d\<rparr>],
         next_oid := next_oid db + 1\<rparr>)"

definition create_document_conversation ::
    "store \<Rightarrow> conversation_fields \<Rightarrow> string \<times> store" where
  "create_document_conversation db d =
     (str (next_oid db),
      db\<lparr>conversation := conversation db @ [\<lparr>oid = next_oid db, body = d\<rparr>],
         next_oid := next_oid db + 1\<rparr>)"

definition create_document_message :: "store \<Rightarrow> message_fields \<Rightarrow> string \<times> store" where
  "create_document_message db d =
     (str (next_oid db),
      db\<lparr>message := message db @ [\<lparr>oid = next_oid db, body = d\<rparr>],
         next_oid := next_oid db + 1\<rparr>)"

section \<open>Request handlers\<close>

type_synonym 'a result = "failure + 'a response option"

definition create_user :: "store \<Rightarrow> CreateUser \<Rightarrow> CreateUser result \<times> store" where
  "create_user db payload =
     (let (user_id, db1) = create_document_chatuser db payload in
      case ObjectId user_id of
        Inl e \<Rightarrow> (Inl e, db1)
      | Inr i \<Rightarrow> (Inr (to_str_id (find_one (\<lambda>d. oid d = i) (chatuser db1))), db1))"

text \<open>The filter \<^verbatim>\<open>{"participant_ids": {"$all": [a, b]}}\<close>.\<close>

definition all_participants ::
    "string \<Rightarrow> string \<Rightarrow> conversation_fields document \<Rightarrow> bool" where
  "all_participants a b d =
     (a \<in> set (participant_ids (body d)) \<and> b \<in> set (participant_ids (body d)))"

definition start_conversation ::
    "store \<Rightarrow> StartConversation \<Rightarrow> conversation_fields result \<times> store" where
  "start_conversation db payload =
     (let a = user_a payload; b = user_b payload in
      if a = b
      then (Inl (HTTPException 400 ''Cannot start conversation with self''), db)
      else
        (case find_one (all_participants a b) (conversation db) of
           Some existing \<Rightarrow> (Inr (to_str_id (Some existing)), db)
         | None \<Rightarrow>
             (let (conv_id, db1) =
                    create_document_conversation db
                      \<lparr>participant_ids = [a, b], last_message_preview = None,
                       updated_at = None\<rparr>
              in case ObjectId conv_id of
                   Inl e \<Rightarrow> (Inl e, db1)
                 | Inr i \<Rightarrow>
                     (Inr (to_str_id (find_one (\<lambda>d. oid d = i) (conversation db1))),
                      db1))))"

text \<open>
  \<^verbatim>\<open>send_message\<close>; \<^verbatim>\<open>now\<close> is what \<^verbatim>\<open>datetime.utcnow()\<close> reads during the call.
\<close>

definition send_message ::
    "datetime \<Rightarrow> store \<Rightarrow> SendMessage \<Rightarrow> message_fields result \<times> store" where
  "send_message now db payload =
     (case ObjectId (conversation_id payload) of
        Inl e \<Rightarrow> (Inl e, db)
      | Inr cid \<Rightarrow>
          (case find_one (\<lambda>d. oid d = cid) (conversation db) of
             None \<Rightarrow> (Inl (HTTPException 404 ''Conversation not found''), db)
           | Some conv \<Rightarrow>
               if sender_id payload \<notin> set (participant_ids (body conv))
               then (Inl (HTTPException 403 ''Sender not in conversation''), db)
               else
                 (let (msg_id, db1) =
                        create_document_message db
                          \<lparr>conversation_id = conversation_id payload,
                           sender_id = sender_id payload,
                           text' = text' payload,
                           delivered = True, read = False\<rparr>;
                      db2 = db1\<lparr>conversation :=
                              update_one (\<lambda>d. oid d = oid conv)
                                (\<lambda>d. d\<lparr>body := (body d)
                                       \<lparr>last_message_preview := Some (text' payload),
                                        updated_at := Some now\<rparr>\<rparr>)
                                (conversation db1)\<rparr>
                  in case ObjectId msg_id of
                       Inl e \<Rightarrow> (Inl e, db2)
                     | Inr i \<Rightarrow>
                         (Inr (to_str_id (find_one (\<lambda>d. oid d = i) (message db2))),
                          db2))))"

text \<open>
  \<^verbatim>\<open>list_messages\<close>. The filter always has the conversation; it gets the \<^verbatim>\<open>$lt\<close> bound
  on \<^verbatim>\<open>_id\<close> when \<^verbatim>\<open>before\<close> is a non-empty string that \<^verbatim>\<open>ObjectId\<close> accepts.
\<close>

definition filt ::
    "string \<Rightarrow> string option \<Rightarrow> message_fields document \<Rightarrow> bool" where
  "filt conv_id before' d =
     (conversation_id (body d) = conv_id \<and>
      (case before' of
         None \<Rightarrow> True
       | Some b \<Rightarrow>
           if b = [] then True
           else (case ObjectId b of Inl e \<Rightarrow> True | Inr i \<Rightarrow> oid d < i)))"

definition list_messages ::
    "store \<Rightarrow> string \<Rightarrow> int \<Rightarrow> string option \<Rightarrow> message_fields response list" where
  "list_messages db conv_id limit before' =
     (let msgs = limit_cursor limit (sort_desc (filter (filt conv_id before') (message db)));
          arr = map to_str_id_doc msgs
      in rev arr)"

section \<open>Request schemas and endpoints\<close>

text \<open>
  The framework parses the JSON body of a POST request and validates it against the
  handler's payload class before the handler runs; a body that does not fit is answered
  with status 422 and the handler is not called. Only the JSON values a field of these
  schemas can meet are modelled. \<^verbatim>\<open>len\<close> of a string is \<open>length\<close> here (one \<open>char\<close>
  per character).
\<close>

datatype json = JNull | JBool bool | JNumber int | JString string

type_synonym json_object = "string \<rightharpoonup> json"

text \<open>
  main.py: \<^verbatim>\<open>class CreateUser(BaseModel): username: str;
  avatar_color: Optional[str] = "#6366F1"\<close>.
\<close>

definition CreateUser_validate :: "json_object \<Rightarrow> failure + CreateUser" where
  "CreateUser_validate obj =
     (case obj ''username'' of
        Some (JString u) \<Rightarrow>
          (case obj ''avatar_color'' of
             None \<Rightarrow> Inr \<lparr>username = u, avatar_color = Some ''#6366F1''\<rparr>
           | Some JNull \<Rightarrow> Inr \<lparr>username = u, avatar_color = None\<rparr>
           | Some (JString c) \<Rightarrow> Inr \<lparr>username = u, avatar_color = Some c\<rparr>
           | Some _ \<Rightarrow> Inl (RequestValidationError ''avatar_color''))
      | _ \<Rightarrow> Inl (RequestValidationError ''username''))"

text \<open>main.py: \<^verbatim>\<open>class StartConversation(BaseModel): user_a: str; user_b: str\<close>.\<close>

definition StartConversation_validate :: "json_object \<Rightarrow> failure + StartConversation" where
  "StartConversation_validate obj =
     (case obj ''user_a'' of
        Some (JString a) \<Rightarrow>
          (case obj ''user_b'' of
             Some (JString b) \<Rightarrow> Inr \<lparr>user_a = a, user_b = b\<rparr>
           | _ \<Rightarrow> Inl (RequestValidationError ''user_b''))
      | _ \<Rightarrow> Inl (RequestValidationError ''user_a''))"

text \<open>
  main.py: \<^verbatim>\<open>class SendMessage(BaseModel): conversation_id: str; sender_id: str;
  text: str\<close>.
\<close>

definition SendMessage_validate :: "json_object \<Rightarrow> failure + SendMessage" where
  "SendMessage_validate obj =
     (case obj ''conversation_id'' of
        Some (JString c) \<Rightarrow>
          (case obj ''sender_id'' of
             Some (JString s) \<Rightarrow>
               (case obj ''text'' of
                  Some (JString t) \<Rightarrow>
                    Inr \<lparr>conversation_id = c, sender_id = s, text' = t\<rparr>
                | _ \<Rightarrow> Inl (RequestValidationError ''text''))
           | _ \<Rightarrow> Inl (RequestValidationError ''sender_id''))
      | _ \<Rightarrow> Inl (RequestValidationError ''conversation_id''))"

text \<open>
  schemas.py declares the collections with their field constraints:
  \<^verbatim>\<open>ChatUser.username: str = Field(..., min_length=2, max_length=24)\<close> and
  \<^verbatim>\<open>Message.text: str = Field(..., min_length=1, max_length=4000)\<close>. These two
  predicates are those constraints. main.py does not import schemas.py.
\<close>

definition ChatUser_username_ok :: "string \<Rightarrow> bool" where
  "ChatUser_username_ok u = (2 \<le> length u \<and> length u \<le> 24)"

definition Message_text_ok :: "string \<Rightarrow> bool" where
  "Message_text_ok t = (1 \<le> length t \<and> length t \<le> 4000)"

text \<open>The endpoints: validation of the body, then the handler.\<close>

definition post_users :: "store \<Rightarrow> json_object \<Rightarrow> CreateUser result \<times> store" where
  "post_users db obj =
     (case CreateUser_validate obj of
        Inl e \<Rightarrow> (Inl e, db)
      | Inr payload \<Rightarrow> create_user db payload)"

definition post_conversations ::
    "store \<Rightarrow> json_object \<Rightarrow> conversation_fields result \<times> store" where
  "post_conversations db obj =
     (case StartConversation_validate obj of
        Inl e \<Rightarrow> (Inl e, db)
      | Inr payload \<Rightarrow> start_conversation db payload)"

definition post_messages ::
    "datetime \<Rightarrow> store \<Rightarrow> json_object \<Rightarrow> message_fields result \<times> store" where
  "post_messages now db obj =
     (case SendMessage_validate obj of
        Inl e \<Rightarrow> (Inl e, db)
      | Inr payload \<Rightarrow> send_message now db payload)"

text \<open>
  \<^verbatim>\<open>GET /messages/{conversation_id}\<close>: the query parameter \<^verbatim>\<open>limit: int = 50\<close> is any
  integer, 50 when absent; \<^verbatim>\<open>before: Optional[str] = None\<close>.
\<close>

definition get_messages ::
    "store \<Rightarrow> string \<Rightarrow> int option \<Rightarrow> string option \<Rightarrow> message_fields response list" where
  "get_messages db conv_id limit before' =
     list_messages db conv_id (case limit of None \<Rightarrow> 50 | Some n \<Rightarrow> n) before'"

section \<open>Sequences of requests\<close>

text \<open>
  The requests that write to the store, and the store after serving a list of them one
  after the other. Reading requests leave the store as it is.
\<close>

datatype request =
    PostUsers json_object
  | PostConversations json_object
  | PostMessages datetime json_object

fun handle :: "store \<Rightarrow> request \<Rightarrow> store" where
  "handle db (PostUsers obj) = snd (post_users db obj)"
| "handle db (PostConversations obj) = snd (post_conversations db obj)"
| "handle db (PostMessages now obj) = snd (post_messages now db obj)"

definition serve :: "store \<Rightarrow> request list \<Rightarrow> store" where
  "serve db reqs = foldl handle db reqs"

definition empty_store :: store where
  "empty_store = \<lparr>chatuser = [], conversation = [], message = [], next_oid = 1\<rparr>"

text \<open>
  A conversation between alice and bob, which gets the identifier 1, and five messages
  sent into it, which get the identifiers 2 to 6.
\<close>

definition message_body :: "string \<Rightarrow> string \<Rightarrow> string \<Rightarrow> json_object" where
  "message_body c s t =
     [''conversation_id'' \<mapsto> JString c, ''sender_id'' \<mapsto> JString s, ''text'' \<mapsto> JString t]"

definition thread_requests :: "request list" where
  "thread_requests =
     [PostConversations [''user_a'' \<mapsto> JString ''alice'', ''user_b'' \<mapsto> JString ''bob''],
      PostMessages 10 (message_body (str 1) ''alice'' ''m1''),
      PostMessages 11 (message_body (str 1) ''bob'' ''m2''),
      PostMessages 12 (message_body (str 1) ''alice'' ''m3''),
      PostMessages 13 (message_body (str 1) ''bob'' ''m4''),
      PostMessages 14 (message_body (str 1) ''alice'' ''m5'')]"

definition thread_store :: store where
  "thread_store = serve empty_store thread_requests"

definition sent :: "nat \<Rightarrow> string \<Rightarrow> string \<Rightarrow> message_fields response" where
  "sent i s t =
     \<lparr>id_str = str (word_of_nat i),
      data = \<lparr>conversation_id = str 1, sender_id = s, text' = t,
              delivered = True, read = False\<rparr>\<rparr>"


text \<open>The documents of \<open>thread_store\<close>, and the store after one more message from alice.\<close>

definition thread_conversation :: "conversation_fields document" where
  "thread_conversation =
     \<lparr>oid = 1,
      body = \<lparr>participant_ids = [''alice'', ''bob''],
              last_message_preview = Some ''m5'', updated_at = Some 14\<rparr>\<rparr>"

definition thread_message :: "ObjectId \<Rightarrow> string \<Rightarrow> string \<Rightarrow> message_fields document" where
  "thread_message i s t =
     \<lparr>oid = i,
      body = \<lparr>conversation_id = ''000000000000000000000001'', sender_id = s, text' = t,
              delivered = True, read = False\<rparr>\<rparr>"

definition thread_store_after :: "string \<Rightarrow> store" where
  "thread_store_after t =
     \<lparr>chatuser = [],
      conversation =
        [\<lparr>oid = 1,
          body = \<lparr>participant_ids = [''alice'', ''bob''],
                  last_message_preview = Some t, updated_at = Some 20\<rparr>\<rparr>],
      message =
        [thread_message 2 ''alice'' ''m1'', thread_message 3 ''bob'' ''m2'',
         thread_message 4 ''alice'' ''m3'', thread_message 5 ''bob'' ''m4'',
         thread_message 6 ''alice'' ''m5'', thread_message 7 ''alice'' t],
      next_oid = 8\<rparr>"

text \<open>
  The store after alice sends one more message into the thread at a moment when the clock
  reads 5, and the conversation it then holds.
\<close>

definition late_conversation :: "conversation_fields document" where
  "late_conversation =
     \<lparr>oid = 1,
      body = \<lparr>participant_ids = [''alice'', ''bob''],
              last_message_preview = Some ''late'', updated_at = Some 5\<rparr>\<rparr>"

definition thread_store_late :: store where
  "thread_store_late =
     \<lparr>chatuser = [],
      conversation = [late_conversation],
      message =
        [thread_message 2 ''alice'' ''m1'', thread_message 3 ''bob'' ''m2'',
         thread_message 4 ''alice'' ''m3'', thread_message 5 ''bob'' ''m4'',
         thread_message 6 ''alice'' ''m5'', thread_message 7 ''alice'' ''late''],
      next_oid = 8\<rparr>"

text \<open>
  Whether a time stamp is not older than another one; a field that was never set counts
  as older than every time stamp.
\<close>

fun not_older :: "datetime option \<Rightarrow> datetime option \<Rightarrow> bool" where
  "not_older new None = True"
| "not_older None (Some t) = False"
| "not_older (Some t') (Some t) = (t \<le> t')"

text \<open>
  The clock over a list of requests. Each \<open>PostMessages\<close> request carries the reading of
  the clock at its call. \<open>clock_monotone t reqs\<close>: starting from the reading \<open>t\<close>, no
  reading is earlier than the one before it. \<open>last_reading t reqs\<close>: the last reading,
  \<open>t\<close> when there is none.
\<close>

fun clock_monotone :: "datetime \<Rightarrow> request list \<Rightarrow> bool" where
  "clock_monotone t [] = True"
| "clock_monotone t (PostMessages now obj # reqs) = (t \<le> now \<and> clock_monotone now reqs)"
| "clock_monotone t (req # reqs) = clock_monotone t reqs"

fun last_reading :: "datetime \<Rightarrow> request list \<Rightarrow> datetime" where
  "last_reading t [] = t"
| "last_reading t (PostMessages now obj # reqs) = last_reading now reqs"
| "last_reading t (req # reqs) = last_reading t reqs"

text \<open>No conversation of the store carries a time stamp later than \<open>t\<close>.\<close>

definition stamps_le :: "datetime \<Rightarrow> store \<Rightarrow> bool" where
  "stamps_le t db =
     list_all (\<lambda>c. not_older (Some t) (updated_at (body c))) (conversation db)"

section \<open>Facts about the store operations\<close>


lemma find_one_Some_holds: "find_one P xs = Some c \<Longrightarrow> P c \<and> c \<in> set xs"
  by (induction xs) (auto simp: find_one_def split: if_splits)

lemma find_one_update_one_same:
  "find_one P xs = Some c \<Longrightarrow> P (f c) \<Longrightarrow> find_one P (update_one P f xs) = Some (f c)"
  by (induction xs) (auto simp: find_one_def split: if_splits)





subsection \<open>What each handler does to the conversation collection\<close>

lemma conversation_create_user: "conversation (snd (create_user db p)) = conversation db"
  by (simp add: create_user_def create_document_chatuser_def split: sum.splits)


lemma conversation_send_message:
  "conversation (snd (send_message now db p)) = conversation db \<or>
   (\<exists>i t. conversation (snd (send_message now db p)) =
      update_one (\<lambda>d. oid d = i)
        (\<lambda>d. d\<lparr>body := (body d)\<lparr>last_message_preview := Some t, updated_at := Some now\<rparr>\<rparr>)
        (conversation db))"
  by (auto simp add: send_message_def create_document_message_def Let_def
      split: sum.splits option.splits)




subsection \<open>Time stamps under a clock that does not run backwards\<close>

lemma not_older_mono: "not_older (Some t) x \<Longrightarrow> t \<le> t' \<Longrightarrow> not_older (Some t') x"
  by (cases x) auto

lemma stamps_le_mono: "stamps_le t db \<Longrightarrow> t \<le> t' \<Longrightarrow> stamps_le t' db"
  by (auto simp: stamps_le_def list_all_iff intro: not_older_mono)

lemma stamps_le_empty_store: "stamps_le 0 empty_store"
  by (simp add: stamps_le_def empty_store_def)

lemma stamps_le_find_one:
  "stamps_le t db \<Longrightarrow> find_one P (conversation db) = Some conv \<Longrightarrow>
   not_older (Some t) (updated_at (body conv))"
  using find_one_Some_holds [of P "conversation db" conv]
  by (auto simp: stamps_le_def list_all_iff)

lemma list_all_update_one:
  "list_all P xs \<Longrightarrow> (\<And>d. P (f d)) \<Longrightarrow> list_all P (update_one Q f xs)"
  by (induction xs) auto

lemma stamps_le_create_user: "stamps_le t db \<Longrightarrow> stamps_le t (snd (create_user db p))"
  by (simp add: stamps_le_def conversation_create_user)

lemma stamps_le_start_conversation:
  "stamps_le t db \<Longrightarrow> stamps_le t (snd (start_conversation db p))"
  by (simp add: stamps_le_def start_conversation_def create_document_conversation_def Let_def
      split: sum.splits option.splits)

lemma stamps_le_send_message:
  assumes "stamps_le t db" and "t \<le> now"
  shows "stamps_le now (snd (send_message now db p))"
proof -
  have le: "stamps_le now db" using assms by (rule stamps_le_mono)
  from conversation_send_message [of now db p] show ?thesis
  proof
    assume "conversation (snd (send_message now db p)) = conversation db"
    then show ?thesis using le by (simp add: stamps_le_def)
  next
    assume "\<exists>i t. conversation (snd (send_message now db p)) =
      update_one (\<lambda>d. oid d = i)
        (\<lambda>d. d\<lparr>body := (body d)\<lparr>last_message_preview := Some t, updated_at := Some now\<rparr>\<rparr>)
        (conversation db)"
    then show ?thesis using le
      by (auto simp: stamps_le_def intro!: list_all_update_one)
  qed
qed

lemma stamps_le_serve:
  "stamps_le t db \<Longrightarrow> clock_monotone t reqs \<Longrightarrow>
   stamps_le (last_reading t reqs) (serve db reqs)"
proof (induction reqs arbitrary: t db)
  case Nil
  then show ?case by (simp add: serve_def)
next
  case (Cons req reqs)
  show ?case
  proof (cases req)
    case (PostUsers obj)
    have "stamps_le t (handle db req)"
      using Cons.prems(1) PostUsers
      by (simp add: post_users_def stamps_le_create_user split: sum.splits)
    then show ?thesis using Cons.IH [of t "handle db req"] Cons.prems(2) PostUsers
      by (simp add: serve_def)
  next
    case (PostConversations obj)
    have "stamps_le t (handle db req)"
      using Cons.prems(1) PostConversations
      by (simp add: post_conversations_def stamps_le_start_conversation split: sum.splits)
    then show ?thesis using Cons.IH [of t "handle db req"] Cons.prems(2) PostConversations
      by (simp add: serve_def)
  next
    case (PostMessages now obj)
    have le: "t \<le> now" and mono: "clock_monotone now reqs"
      using Cons.prems(2) PostMessages by simp_all
    have "stamps_le now (handle db req)"
      using Cons.prems(1) le PostMessages
      by (auto simp: post_messages_def stamps_le_send_message split: sum.splits
          intro: stamps_le_mono)
    then show ?thesis using Cons.IH [of now "handle db req"] mono PostMessages
      by (simp add: serve_def)
  qed
qed

lemma stamps_le_reachable:
  "clock_monotone 0 reqs \<Longrightarrow> stamps_le (last_reading 0 reqs) (serve empty_store reqs)"
  using stamps_le_serve [OF stamps_le_empty_store] .

subsection \<open>The example thread, evaluated\<close>

lemma str_1: "str 1 = ''000000000000000000000001''"
  by code_simp


lemma ObjectId_str_1: "ObjectId (str 1) = Inr 1"
  by code_simp

lemma ObjectId_malformed: "ObjectId ''not-a-real-id'' = Inl (InvalidId ''not-a-real-id'')"
  by (simp add: ObjectId_def)

lemma thread_store_value:
  "thread_store =
     \<lparr>chatuser = [],
      conversation = [thread_conversation],
      message =
        [thread_message 2 ''alice'' ''m1'', thread_message 3 ''bob'' ''m2'',
         thread_message 4 ''alice'' ''m3'', thread_message 5 ''bob'' ''m4'',
         thread_message 6 ''alice'' ''m5''],
      next_oid = 7\<rparr>"
  by code_simp

lemma page_newest:
  "list_messages thread_store (str 1) 2 None =
     [sent 5 ''bob'' ''m4'', sent 6 ''alice'' ''m5'']"
  unfolding thread_store_value str_1 by code_simp


lemma find_thread_conversation:
  "find_one (\<lambda>d. oid d = 1) (conversation thread_store) = Some thread_conversation"
  unfolding thread_store_value by (simp add: find_one_def thread_conversation_def)


lemma send_hello:
  "send_message 20 thread_store
     \<lparr>conversation_id = str 1, sender_id = ''alice'', text' = ''hello''\<rparr>
   = (Inr (Some (sent 7 ''alice'' ''hello'')), thread_store_after ''hello'')"
  unfolding thread_store_value str_1 by code_simp

lemma post_empty_text:
  "post_messages 20 thread_store (message_body (str 1) ''alice'' []) =
     (Inr (Some (sent 7 ''alice'' [])), thread_store_after [])"
  unfolding thread_store_value str_1 by code_simp

lemma send_late:
  "send_message 5 thread_store
     \<lparr>conversation_id = str 1, sender_id = ''alice'', text' = ''late''\<rparr>
   = (Inr (Some (sent 7 ''alice'' ''late'')), thread_store_late)"
  unfolding thread_store_value str_1 by code_simp

lemma thread_requests_clock:
  "clock_monotone 0 thread_requests \<and> last_reading 0 thread_requests = 14"
  by (simp add: thread_requests_def)

section \<open>Malformed conversation identifiers in Send Message\<close>

text \<open>
  C1. The claim is that Send Message answers a \<^verbatim>\<open>conversation_id\<close> that is not a
  well-formed identifier with the 404 "Conversation not found" error, as it does for a
  well-formed identifier that matches no conversation. In \<^verbatim>\<open>send_message\<close> the call
  \<^verbatim>\<open>ObjectId(payload.conversation_id)\<close> is not guarded: for the identifier
  \<^verbatim>\<open>not-a-real-id\<close> the \<^verbatim>\<open>InvalidId\<close> exception leaves the handler, whatever the store
  holds, and the request is answered with status 500; the store is unchanged. For the
  well-formed identifier 1 and a store without conversations the answer is the 404.
\<close>

theorem send_message_malformed_id_is_server_error:
  "send_message now db \<lparr>conversation_id = ''not-a-real-id'', sender_id = s, text' = t\<rparr>
     = (Inl (InvalidId ''not-a-real-id''), db)
   \<and> status_code (InvalidId ''not-a-real-id'') = 500
   \<and> send_message now empty_store \<lparr>conversation_id = str 1, sender_id = s, text' = t\<rparr>
     = (Inl (HTTPException 404 ''Conversation not found''), empty_store)"
  using ObjectId_malformed ObjectId_str_1
  by (simp add: send_message_def empty_store_def find_one_def)

section \<open>Idempotent conversation creation\<close>



section \<open>Pagination order\<close>


section \<open>Membership enforcement\<close>

text \<open>
  C4. When the conversation that \<^verbatim>\<open>conversation_id\<close> names exists and \<^verbatim>\<open>sender_id\<close> is
  not among its participants, Send Message fails with the 403 error "Sender not in
  conversation" and the store is unchanged: no message is inserted and the conversation
  is as before.
\<close>

theorem send_message_forbidden:
  assumes "ObjectId (conversation_id payload) = Inr cid"
    and "find_one (\<lambda>d. oid d = cid) (conversation db) = Some conv"
    and "sender_id payload \<notin> set (participant_ids (body conv))"
  shows "send_message now db payload =
           (Inl (HTTPException 403 ''Sender not in conversation''), db)
         \<and> status_code (HTTPException 403 ''Sender not in conversation'') = 403"
  using assms by (simp add: send_message_def)

theorem send_message_forbidden_witness:
  "ObjectId (conversation_id
      \<lparr>conversation_id = str 1, sender_id = ''carol'', text' = ''hi''\<rparr>) = Inr 1
   \<and> find_one (\<lambda>d. oid d = 1) (conversation thread_store) = Some thread_conversation
   \<and> ''carol'' \<notin> set (participant_ids (body thread_conversation))
   \<and> send_message 20 thread_store
        \<lparr>conversation_id = str 1, sender_id = ''carol'', text' = ''hi''\<rparr>
       = (Inl (HTTPException 403 ''Sender not in conversation''), thread_store)"
proof -
  let ?p = "\<lparr>conversation_id = str 1, sender_id = ''carol'', text' = ''hi''\<rparr>"
  have a: "ObjectId (conversation_id ?p) = Inr 1" using ObjectId_str_1 by simp
  have c: "sender_id ?p \<notin> set (participant_ids (body thread_conversation))"
    by (simp add: thread_conversation_def)
  show ?thesis
    using a c find_thread_conversation
      send_message_forbidden [OF a find_thread_conversation c, of 20]
    by simp
qed

section \<open>Self-conversation rejection\<close>

text \<open>
  C5. Start Conversation with \<open>user_a = user_b\<close> fails with the 400 client error
  "Cannot start conversation with self", whatever the store holds; nothing is returned
  and the store, so also its conversation collection, is exactly as before.
\<close>

theorem start_conversation_self_rejected:
  "start_conversation db \<lparr>user_a = a, user_b = a\<rparr> =
     (Inl (HTTPException 400 ''Cannot start conversation with self''), db)
   \<and> status_code (HTTPException 400 ''Cannot start conversation with self'') = 400"
  by (simp add: start_conversation_def)

section \<open>Preview update\<close>

text \<open>
  C6. After a Send Message call that succeeds, the conversation the message was sent to
  is the conversation of before with \<^verbatim>\<open>last_message_preview\<close> set to the sent text and
  \<^verbatim>\<open>updated_at\<close> set to the clock reading of the call, and nothing else changed: its
  \<^verbatim>\<open>_id\<close> and \<^verbatim>\<open>participant_ids\<close> are as before, and so is every other conversation.
  This holds for every store. When the store is one that requests built from the empty
  store with clock readings that never decrease, and the reading of this call is not
  earlier than the last of them, the new \<^verbatim>\<open>updated_at\<close> is not older than the old one.
\<close>

theorem send_message_updates_preview:
  assumes "send_message now db payload = (Inr r, db')"
  shows "\<exists>cid conv conv'.
      ObjectId (conversation_id payload) = Inr cid
    \<and> find_one (\<lambda>d. oid d = cid) (conversation db) = Some conv
    \<and> find_one (\<lambda>d. oid d = cid) (conversation db') = Some conv'
    \<and> conv' = conv\<lparr>body := (body conv)\<lparr>last_message_preview := Some (text' payload),
                                         updated_at := Some now\<rparr>\<rparr>
    \<and> last_message_preview (body conv') = Some (text' payload)
    \<and> updated_at (body conv') = Some now
    \<and> oid conv' = oid conv
    \<and> participant_ids (body conv') = participant_ids (body conv)
    \<and> conversation db' =
        update_one (\<lambda>d. oid d = cid)
          (\<lambda>d. d\<lparr>body := (body d)\<lparr>last_message_preview := Some (text' payload),
                                    updated_at := Some now\<rparr>\<rparr>)
          (conversation db)
    \<and> (\<forall>reqs. db = serve empty_store reqs \<and> clock_monotone 0 reqs
                 \<and> last_reading 0 reqs \<le> now \<longrightarrow>
          not_older (updated_at (body conv')) (updated_at (body conv)))"
proof -
  obtain cid where cid: "ObjectId (conversation_id payload) = Inr cid"
    using assms by (auto simp: send_message_def split: sum.splits)
  obtain conv where conv: "find_one (\<lambda>d. oid d = cid) (conversation db) = Some conv"
    using assms cid by (auto simp: send_message_def split: option.splits)
  have oc: "oid conv = cid" using find_one_Some_holds [OF conv] by simp
  let ?f = "\<lambda>d::conversation_fields document.
             d\<lparr>body := (body d)\<lparr>last_message_preview := Some (text' payload),
                                 updated_at := Some now\<rparr>\<rparr>"
  have upd: "conversation db' = update_one (\<lambda>d. oid d = cid) ?f (conversation db)"
    using assms cid conv oc
    by (auto simp: send_message_def create_document_message_def Let_def
        split: if_splits sum.splits)
  have f: "find_one (\<lambda>d. oid d = cid) (conversation db') = Some (?f conv)"
    unfolding upd using oc by (intro find_one_update_one_same [OF conv]) simp
  have clock: "not_older (updated_at (body (?f conv))) (updated_at (body conv))"
    if "db = serve empty_store reqs" "clock_monotone 0 reqs" "last_reading 0 reqs \<le> now"
    for reqs
  proof -
    have "stamps_le (last_reading 0 reqs) db"
      using that(1,2) stamps_le_reachable by simp
    then have "stamps_le now db" using that(3) by (rule stamps_le_mono)
    then have "not_older (Some now) (updated_at (body conv))"
      using conv by (rule stamps_le_find_one)
    then show ?thesis by simp
  qed
  show ?thesis using cid conv upd f clock by auto
qed

theorem send_message_updates_preview_witness:
  "send_message 20 thread_store
     \<lparr>conversation_id = str 1, sender_id = ''alice'', text' = ''hello''\<rparr>
   = (Inr (Some (sent 7 ''alice'' ''hello'')), thread_store_after ''hello'')
   \<and> thread_store = serve empty_store thread_requests
   \<and> clock_monotone 0 thread_requests
   \<and> last_reading 0 thread_requests \<le> 20
   \<and> (\<exists>conv'.
        find_one (\<lambda>d. oid d = 1) (conversation (thread_store_after ''hello'')) = Some conv'
      \<and> last_message_preview (body conv') = Some ''hello''
      \<and> updated_at (body conv') = Some 20
      \<and> oid conv' = oid thread_conversation
      \<and> participant_ids (body conv') = participant_ids (body thread_conversation)
      \<and> not_older (updated_at (body conv')) (updated_at (body thread_conversation)))"
proof -
  let ?p = "\<lparr>conversation_id = str 1, sender_id = ''alice'', text' = ''hello''\<rparr>"
  have r: "thread_store = serve empty_store thread_requests"
    by (simp add: thread_store_def)
  have c: "clock_monotone 0 thread_requests" "last_reading 0 thread_requests \<le> 20"
    using thread_requests_clock by simp_all
  from send_message_updates_preview [OF send_hello]
  obtain cid conv conv' where
    "ObjectId (conversation_id ?p) = Inr cid"
    "find_one (\<lambda>d. oid d = cid) (conversation thread_store) = Some conv"
    "find_one (\<lambda>d. oid d = cid) (conversation (thread_store_after ''hello'')) = Some conv'"
    "last_message_preview (body conv') = Some (text' ?p)"
    "updated_at (body conv') = Some 20"
    "oid conv' = oid conv"
    "participant_ids (body conv') = participant_ids (body conv)"
    "\<forall>reqs. thread_store = serve empty_store reqs \<and> clock_monotone 0 reqs
                 \<and> last_reading 0 reqs \<le> 20 \<longrightarrow>
          not_older (updated_at (body conv')) (updated_at (body conv))"
    by blast
  then show ?thesis
    using send_hello r c ObjectId_str_1 find_thread_conversation by auto
qed

text \<open>
  The condition on the clock cannot be dropped. \<^verbatim>\<open>datetime.utcnow()\<close> reads the wall
  clock, which can be set back: a call that succeeds while the clock reads 5, on the
  thread whose conversation was stamped 14, leaves the conversation with the older
  stamp 5.
\<close>

theorem send_message_clock_counterexample:
  "send_message 5 thread_store
     \<lparr>conversation_id = str 1, sender_id = ''alice'', text' = ''late''\<rparr>
   = (Inr (Some (sent 7 ''alice'' ''late'')), thread_store_late)
   \<and> conversation thread_store = [thread_conversation]
   \<and> conversation thread_store_late = [late_conversation]
   \<and> oid late_conversation = oid thread_conversation
   \<and> updated_at (body thread_conversation) = Some 14
   \<and> updated_at (body late_conversation) = Some 5
   \<and> \<not> not_older (updated_at (body late_conversation))
                  (updated_at (body thread_conversation))"
  using send_late
  by (simp add: thread_store_value thread_store_late_def late_conversation_def
      thread_conversation_def)

section \<open>Decode-failure tolerance in List Messages\<close>

text \<open>
  C7. When \<^verbatim>\<open>before\<close> is a string that \<^verbatim>\<open>ObjectId\<close> rejects, List Messages returns
  what the same call without \<^verbatim>\<open>before\<close> returns, for every store, conversation and
  limit, in the handler and at the endpoint; the rejection is caught and no failure
  leaves the handler.
\<close>

theorem list_messages_ignores_bad_before:
  assumes "ObjectId b = Inl e"
  shows "list_messages db cid n (Some b) = list_messages db cid n None
       \<and> get_messages db cid lim (Some b) = get_messages db cid lim None"
proof -
  have "filt cid (Some b) = filt cid None"
    using assms by (auto simp: filt_def fun_eq_iff)
  then show ?thesis by (simp add: list_messages_def get_messages_def)
qed

theorem list_messages_ignores_bad_before_witness:
  "ObjectId ''not-a-real-id'' = Inl (InvalidId ''not-a-real-id'')
   \<and> list_messages thread_store (str 1) 2 (Some ''not-a-real-id'')
       = list_messages thread_store (str 1) 2 None
   \<and> list_messages thread_store (str 1) 2 (Some ''not-a-real-id'')
       = [sent 5 ''bob'' ''m4'', sent 6 ''alice'' ''m5'']"
  using ObjectId_malformed
    list_messages_ignores_bad_before [OF ObjectId_malformed, of thread_store "str 1" 2]
    page_newest
  by simp

section \<open>Length of the username in Create User\<close>

text \<open>
  C8. The claim is that Create User rejects a username of fewer than 2 or more than 24
  characters before the handler runs. The bound is declared in schemas.py on
  \<^verbatim>\<open>ChatUser.username\<close>, but the endpoint validates the body against \<^verbatim>\<open>CreateUser\<close> of
  main.py, whose \<^verbatim>\<open>username\<close> is any string: the request with the one-character username
  \<^verbatim>\<open>a\<close>, which the declared bound excludes, succeeds and the user is inserted. The
  request schema accepts a username \<open>u\<close> of any length.
\<close>

theorem create_user_accepts_short_username:
  "post_users empty_store [''username'' \<mapsto> JString ''a''] =
     (Inr (Some \<lparr>id_str = str 1,
                 data = \<lparr>username = ''a'', avatar_color = Some ''#6366F1''\<rparr>\<rparr>),
      \<lparr>chatuser =
         [\<lparr>oid = 1, body = \<lparr>username = ''a'', avatar_color = Some ''#6366F1''\<rparr>\<rparr>],
       conversation = [], message = [], next_oid = 2\<rparr>)
   \<and> \<not> ChatUser_username_ok ''a''
   \<and> CreateUser_validate [''username'' \<mapsto> JString u] =
       Inr \<lparr>username = u, avatar_color = Some ''#6366F1''\<rparr>"
proof -
  have "post_users empty_store [''username'' \<mapsto> JString ''a''] =
     (Inr (Some \<lparr>id_str = str 1,
                 data = \<lparr>username = ''a'', avatar_color = Some ''#6366F1''\<rparr>\<rparr>),
      \<lparr>chatuser =
         [\<lparr>oid = 1, body = \<lparr>username = ''a'', avatar_color = Some ''#6366F1''\<rparr>\<rparr>],
       conversation = [], message = [], next_oid = 2\<rparr>)"
    by (simp add: post_users_def CreateUser_validate_def create_user_def
        create_document_chatuser_def empty_store_def ObjectId_str_1 find_one_def
        to_str_id_def)
  then show ?thesis
    by (simp add: ChatUser_username_ok_def CreateUser_validate_def)
qed

section \<open>Length of the text in Send Message\<close>

text \<open>
  C9. The claim is that Send Message rejects an empty text, and a text of more than 4000
  characters, before the handler runs. The bound is declared in schemas.py on
  \<^verbatim>\<open>Message.text\<close>, but the endpoint validates the body against \<^verbatim>\<open>SendMessage\<close> of
  main.py, whose \<^verbatim>\<open>text\<close> is any string: the request of alice with the empty text,
  which the declared bound excludes, succeeds, the message is inserted and the preview of
  the conversation becomes the empty text. The request schema accepts a text \<open>t\<close> of any
  length.
\<close>

theorem send_message_accepts_empty_text:
  "post_messages 20 thread_store (message_body (str 1) ''alice'' []) =
     (Inr (Some (sent 7 ''alice'' [])), thread_store_after [])
   \<and> \<not> Message_text_ok []
   \<and> SendMessage_validate (message_body c s t) =
       Inr \<lparr>conversation_id = c, sender_id = s, text' = t\<rparr>"
proof -
  have v: "SendMessage_validate (message_body c s t) =
       Inr \<lparr>conversation_id = c, sender_id = s, text' = t\<rparr>"
    by (simp add: SendMessage_validate_def message_body_def)
  show ?thesis using post_empty_text v by (simp add: Message_text_ok_def)
qed

section \<open>A limit of zero in List Messages\<close>

text \<open>
  C10. The endpoint hands \<^verbatim>\<open>limit\<close> to the cursor as it comes. With \<open>limit = 0\<close> the page
  is every message of the conversation, oldest first, so it has as many entries as the
  conversation has messages, while the page of a call without \<^verbatim>\<open>limit\<close> has at most 50.
\<close>

theorem get_messages_limit_zero_unlimited:
  "get_messages db cid (Some 0) None =
     map to_str_id_doc
       (sort_key oid (filter (\<lambda>d. conversation_id (body d) = cid) (message db)))
   \<and> length (get_messages db cid (Some 0) None) =
       length (filter (\<lambda>d. conversation_id (body d) = cid) (message db))
   \<and> length (get_messages db cid None None) \<le> 50"
proof -
  have "filt cid None = (\<lambda>d. conversation_id (body d) = cid)"
    by (simp add: filt_def fun_eq_iff)
  then show ?thesis
    by (simp add: get_messages_def list_messages_def limit_cursor_def sort_desc_def rev_map)
qed

end
